theory Spec2Isabelle
  imports Complex_Main
begin

section \<open>Data model\<close>

subsection \<open>Floating-point entries of the correlation matrix\<close>

text \<open>
  An entry of the pandas correlation matrix is a float64. Pearson correlations are either
  a number or NaN (a zero-variance column, or fewer than two rows); a number is modelled by
  the real it denotes, on which the comparison of two floats is the comparison of their
  values.
\<close>

datatype float64 = NaN | Num real

text \<open>\<^verbatim>\<open>x >= theta\<close> on floats: every comparison with NaN is False.\<close>

fun ge :: "float64 \<Rightarrow> real \<Rightarrow> bool" where
  "ge NaN theta = False"
| "ge (Num x) theta = (x \<ge> theta)"

subsection \<open>The correlation matrix\<close>

text \<open>
  \<^verbatim>\<open>corr_matrix\<close> is a pandas DataFrame: the column labels \<^verbatim>\<open>corr_matrix.columns\<close>
  (the stock symbols) and the positional accessor \<^verbatim>\<open>corr_matrix.iloc[i, j]\<close>. The frame
  returned by \<^verbatim>\<open>DataFrame.corr\<close> is square over its columns, and the scripts read
  \<^verbatim>\<open>iloc\<close> only at positions below \<^verbatim>\<open>len(corr_matrix.columns)\<close>.
\<close>

record 'a corr_matrix =
  columns :: "'a list"
  iloc :: "nat \<Rightarrow> nat \<Rightarrow> float64"

subsection \<open>The undirected graph of networkx, as the scripts use it\<close>

text \<open>
  \<^verbatim>\<open>nx.Graph()\<close>: the nodes in insertion order, each once; the undirected edges, each stored
  once with its endpoints in the order of the call that created it and its optional
  \<^verbatim>\<open>weight\<close> attribute.
\<close>

record 'a graph =
  nodes :: "'a list"
  edges :: "('a \<times> 'a \<times> float64 option) list"

definition Graph :: "'a graph" where
  "Graph = \<lparr>nodes = [], edges = []\<rparr>"

definition has_edge :: "'a graph \<Rightarrow> 'a \<Rightarrow> 'a \<Rightarrow> bool" where
  "has_edge g u v = (\<exists>e \<in> set (edges g).
     (fst e = u \<and> fst (snd e) = v) \<or> (fst e = v \<and> fst (snd e) = u))"

definition add_node :: "'a \<Rightarrow> 'a graph \<Rightarrow> 'a graph" where
  "add_node v g = (if v \<in> set (nodes g) then g else g\<lparr>nodes := nodes g @ [v]\<rparr>)"

definition add_nodes_from :: "'a list \<Rightarrow> 'a graph \<Rightarrow> 'a graph" where
  "add_nodes_from vs g = fold add_node vs g"

text \<open>
  \<^verbatim>\<open>G.add_edge(u, v, **attr)\<close>: both endpoints become nodes; a new edge is stored, an
  existing one (in either direction) only has its attributes updated.
\<close>

definition set_weight :: "'a \<Rightarrow> 'a \<Rightarrow> float64 \<Rightarrow> ('a \<times> 'a \<times> float64 option) \<Rightarrow> ('a \<times> 'a \<times> float64 option)" where
  "set_weight u v x e =
     (if (fst e = u \<and> fst (snd e) = v) \<or> (fst e = v \<and> fst (snd e) = u)
      then (fst e, fst (snd e), Some x) else e)"

definition add_edge :: "'a \<Rightarrow> 'a \<Rightarrow> float64 option \<Rightarrow> 'a graph \<Rightarrow> 'a graph" where
  "add_edge u v attr g =
     (let g' = add_node v (add_node u g) in
      if has_edge g' u v
      then (case attr of
              None \<Rightarrow> g'
            | Some x \<Rightarrow> g'\<lparr>edges := map (set_weight u v x) (edges g')\<rparr>)
      else g'\<lparr>edges := edges g' @ [(u, v, attr)]\<rparr>)"

definition number_of_nodes :: "'a graph \<Rightarrow> nat" where
  "number_of_nodes g = length (nodes g)"

definition number_of_edges :: "'a graph \<Rightarrow> nat" where
  "number_of_edges g = length (edges g)"

text \<open>The edge set: every stored edge as the unordered pair of its endpoints.\<close>

definition edge_set :: "'a graph \<Rightarrow> 'a set set" where
  "edge_set g = (\<lambda>e. {fst e, fst (snd e)}) ` set (edges g)"

text \<open>No unordered pair is stored twice.\<close>

definition simple :: "'a graph \<Rightarrow> bool" where
  "simple g = distinct (map (\<lambda>e. {fst e, fst (snd e)}) (edges g))"

section \<open>Threshold graph construction\<close>

text \<open>
  parameter.py, lines 37--42: the graph of one threshold of the sweep.
  \<^verbatim>\<open>
  G_theta = nx.Graph()
  G_theta.add_nodes_from(corr_matrix.columns)
  for i in range(N):
      for j in range(i + 1, N):
          if corr_matrix.iloc[i, j] >= theta:
              G_theta.add_edge(corr_matrix.columns[i], corr_matrix.columns[j])
  \<close>
  with \<^verbatim>\<open>N = len(corr_matrix.columns)\<close>.
\<close>

definition G_theta :: "'a corr_matrix \<Rightarrow> real \<Rightarrow> 'a graph" where
  "G_theta corr_matrix theta =
     (let N = length (columns corr_matrix) in
      fold (\<lambda>i g.
        fold (\<lambda>j g.
          if ge (iloc corr_matrix i j) theta
          then add_edge (columns corr_matrix ! i) (columns corr_matrix ! j) None g
          else g) [i + 1 ..< N] g) [0 ..< N]
        (add_nodes_from (columns corr_matrix) Graph))"

text \<open>
  network\_construction.py, lines 35--43: the same loop at the fixed threshold 0.5, each
  edge carrying its correlation as \<^verbatim>\<open>weight\<close>.
\<close>

definition theta_default :: real where
  "theta_default = 0.5"

definition G :: "'a corr_matrix \<Rightarrow> 'a graph" where
  "G corr_matrix =
     (let theta = theta_default in
      fold (\<lambda>i g.
        fold (\<lambda>j g.
          (let stock_i = columns corr_matrix ! i;
               stock_j = columns corr_matrix ! j;
               correlation = iloc corr_matrix i j
           in if ge correlation theta
              then add_edge stock_i stock_j (Some correlation) g
              else g)) [i + 1 ..< length (columns corr_matrix)] g)
        [0 ..< length (columns corr_matrix)]
        (add_nodes_from (columns corr_matrix) Graph))"

section \<open>Errors and arithmetic\<close>

text \<open>The exceptions of the scripts and of the library calls they make.\<close>

datatype error = ZeroDivisionError | Exception string

text \<open>
  Python's true division \<^verbatim>\<open>a / b\<close> on numbers: it raises \<^verbatim>\<open>ZeroDivisionError\<close> when
  the divisor is zero. The float quotient is modelled by the exact quotient.
\<close>

definition truediv :: "real \<Rightarrow> real \<Rightarrow> error + real" where
  "truediv a b = (if b = 0 then Inl ZeroDivisionError else Inr (a / b))"

section \<open>Summary metrics\<close>

subsection \<open>Mean degree\<close>

text \<open>
  parameter.py, lines 45--48:
  \<^verbatim>\<open>
  if G_theta.number_of_nodes() == 0:
      avg_k = 0
  else:
      avg_k = (G_theta.number_of_edges() * 2) / G_theta.number_of_nodes()
  \<close>
\<close>

definition avg_k :: "'a graph \<Rightarrow> error + real" where
  "avg_k g =
     (if number_of_nodes g = 0 then Inr 0
      else truediv (real (number_of_edges g * 2)) (real (number_of_nodes g)))"

text \<open>
  network\_construction.py, lines 48--54: the division is inside \<^verbatim>\<open>try\<close>, and
  \<^verbatim>\<open>except ZeroDivisionError\<close> prints a message in place of the mean degree.
  \<^verbatim>\<open>
  try:
      avg_degree = G.number_of_edges() * 2 / G.number_of_nodes()
      print(f"Average Degree <k>: {avg_degree:.2f}")
      ...
  except ZeroDivisionError:
      print("Error: Graph has no nodes.")
  \<close>
\<close>

datatype line = Line string "real list"

definition avg_degree :: "'a graph \<Rightarrow> error + real" where
  "avg_degree g = truediv (real (number_of_edges g * 2)) (real (number_of_nodes g))"

definition report_avg_degree :: "'a graph \<Rightarrow> line list" where
  "report_avg_degree g =
     (case avg_degree g of
        Inr k \<Rightarrow> [Line ''Average Degree <k>: {avg_degree:.2f}'' [k],
                   Line ''Network Density: {density:.4f}'' []]
      | Inl _ \<Rightarrow> [Line ''Error: Graph has no nodes.'' []])"

subsection \<open>Connected components\<close>

text \<open>
  \<^verbatim>\<open>nx.connected_components(G)\<close> is a call into networkx, modelled by what the library does:
  it walks the nodes in order and, for each node not seen yet, yields the set of nodes
  reachable from it and marks them seen.
\<close>

definition adjacency :: "'a graph \<Rightarrow> ('a \<times> 'a) set" where
  "adjacency g =
     (\<lambda>e. (fst e, fst (snd e))) ` set (edges g) \<union> (\<lambda>e. (fst (snd e), fst e)) ` set (edges g)"

definition node_connected_component :: "'a graph \<Rightarrow> 'a \<Rightarrow> 'a list" where
  "node_connected_component g v =
     filter (\<lambda>u. u = v \<or> (v, u) \<in> (adjacency g)\<^sup>+) (nodes g)"

fun components_loop :: "'a graph \<Rightarrow> 'a set \<Rightarrow> 'a list \<Rightarrow> 'a list list" where
  "components_loop g seen [] = []"
| "components_loop g seen (v # vs) =
     (if v \<in> seen then components_loop g seen vs
      else (let c = node_connected_component g v
            in c # components_loop g (seen \<union> set c) vs))"

definition connected_components :: "'a graph \<Rightarrow> 'a list list" where
  "connected_components g = components_loop g {} (nodes g)"

text \<open>
  \<^verbatim>\<open>max(components, key=len)\<close> on a non-empty list: the first component of maximal length
  (a later one replaces the best so far only when strictly longer).
\<close>

definition max_key_len :: "'a list \<Rightarrow> 'a list list \<Rightarrow> 'a list" where
  "max_key_len c cs = foldl (\<lambda>best x. if length best < length x then x else best) c cs"

text \<open>
  parameter.py, lines 52--57:
  \<^verbatim>\<open>
  components = list(nx.connected_components(G_theta))
  if not components:
      S = 0
  else:
      largest_comp_size = len(max(components, key=len))
      S = largest_comp_size / N
  \<close>
\<close>

definition S_of :: "'a graph \<Rightarrow> nat \<Rightarrow> error + real" where
  "S_of g N =
     (let components = connected_components g in
      case components of
        [] \<Rightarrow> Inr 0
      | c # cs \<Rightarrow>
          (let largest_comp_size = length (max_key_len c cs)
           in truediv (real largest_comp_size) (real N)))"

text \<open>
  The connected components as a notion of graph theory: the classes of mutual reachability
  among the nodes.
\<close>

definition component_of :: "'a graph \<Rightarrow> 'a \<Rightarrow> 'a set" where
  "component_of g v = {u \<in> set (nodes g). (v, u) \<in> (adjacency g)\<^sup>*}"

definition components_of :: "'a graph \<Rightarrow> 'a set set" where
  "components_of g = component_of g ` set (nodes g)"

definition largest_component_size :: "'a graph \<Rightarrow> nat" where
  "largest_component_size g = Max (card ` components_of g)"

text \<open>
  The largest-component fraction of the graph of a threshold: the size of its largest
  connected component over the number of symbols, and 0 when there is no symbol.
\<close>

definition lcc_fraction :: "'a corr_matrix \<Rightarrow> real \<Rightarrow> real" where
  "lcc_fraction m \<theta> =
     (if columns m = [] then 0
      else real (largest_component_size (G_theta m \<theta>)) / real (length (columns m)))"

section \<open>The percolation sweep\<close>

text \<open>
  parameter.py, lines 35--62: one iteration per threshold; the three result lists grow by
  one entry each. \<^verbatim>\<open>nx.average_clustering\<close> is a library call outside the repository: it
  is a parameter that returns a number or raises, and an exception ends the script.
\<close>

definition sweep_step ::
  "('a graph \<Rightarrow> error + real) \<Rightarrow> 'a corr_matrix \<Rightarrow> real \<Rightarrow> error + (real \<times> real \<times> real)" where
  "sweep_step average_clustering corr_matrix theta =
     (let N = length (columns corr_matrix);
          g = G_theta corr_matrix theta
      in case avg_k g of
           Inl e \<Rightarrow> Inl e
         | Inr k \<Rightarrow>
            (case average_clustering g of
               Inl e \<Rightarrow> Inl e
             | Inr C \<Rightarrow>
                (case S_of g N of
                   Inl e \<Rightarrow> Inl e
                 | Inr S \<Rightarrow> Inr (k, C, S))))"

record sweep_results =
  avg_degrees :: "real list"
  avg_clusterings :: "real list"
  largest_component_sizes :: "real list"

fun sweep ::
  "('a graph \<Rightarrow> error + real) \<Rightarrow> 'a corr_matrix \<Rightarrow> real list \<Rightarrow> sweep_results
     \<Rightarrow> error + sweep_results" where
  "sweep average_clustering corr_matrix [] r = Inr r"
| "sweep average_clustering corr_matrix (theta # thetas) r =
     (case sweep_step average_clustering corr_matrix theta of
        Inl e \<Rightarrow> Inl e
      | Inr (k, C, S) \<Rightarrow>
          sweep average_clustering corr_matrix thetas
            \<lparr>avg_degrees = avg_degrees r @ [k],
             avg_clusterings = avg_clusterings r @ [C],
             largest_component_sizes = largest_component_sizes r @ [S]\<rparr>)"

definition no_results :: sweep_results where
  "no_results = \<lparr>avg_degrees = [], avg_clusterings = [], largest_component_sizes = []\<rparr>"

section \<open>The scripts as runs\<close>

text \<open>
  A run of a script: the lines it printed, the files it wrote, and how it ended. A printed
  line is its format string with the numbers the model computes for it.
\<close>

datatype status = Completed | Exited | Raised error

record 'f run =
  stdout :: "line list"
  files :: "(string \<times> 'f) list"
  status :: status

definition local_filename :: string where
  "local_filename = ''nifty500_adj_close_2023_2024.csv''"

definition graph_filename :: string where
  "graph_filename = ''nifty500_network.gpickle''"

text \<open>
  network\_construction.py. The file system maps a file name to the price table stored
  there; \<^verbatim>\<open>pd.read_csv\<close> raises \<^verbatim>\<open>FileNotFoundError\<close> when there is none, which the script
  answers with two lines and \<^verbatim>\<open>exit()\<close>. The pandas computation of lines 19--26
  (log-returns, \<^verbatim>\<open>dropna\<close>, \<^verbatim>\<open>corr\<close>) is the parameter \<open>corr\<close>; the section on
  returns and correlation below gives it on the reals.
\<close>

definition network_construction ::
  "(string \<rightharpoonup> 'p) \<Rightarrow> ('p \<Rightarrow> 'a corr_matrix) \<Rightarrow> 'a graph run" where
  "network_construction fs corr =
     (case fs local_filename of
        None \<Rightarrow>
          \<lparr>stdout = [Line ''Error: File '{local_filename}' not found.'' [],
                     Line ''Please make sure the file is in the same directory as your script.'' []],
           files = [], status = Exited\<rparr>
      | Some prices_df \<Rightarrow>
          (let corr_matrix = corr prices_df;
               g = G corr_matrix
           in \<lparr>stdout =
                 [Line ''Successfully loaded data from '{local_filename}'.'' [],
                  Line ''Shape of price data: {prices_df.shape}'' [],
                  Line ''Log-returns calculated. Shape: {log_returns_df.shape}'' [],
                  Line ''Calculating correlation matrix...'' [],
                  Line ''Correlation matrix calculated in {end_time - start_time:.2f} seconds.'' [],
                  Line ''Correlation matrix shape: {corr_matrix.shape}'' [],
                  Line ''Building graph with threshold theta = {theta}...'' [theta_default],
                  Line ''--- Network Created Successfully ---'' [],
                  Line ''Number of nodes (stocks): {G.number_of_nodes()}'' [real (number_of_nodes g)],
                  Line ''Number of edges (correlations >= {theta}): {G.number_of_edges()}''
                    [theta_default, real (number_of_edges g)]]
                 @ report_avg_degree g
                 @ [Line ''Main graph saved to '{graph_filename}' (Robust Pickle Format)'' []],
               files = [(graph_filename, g)],
               status = Completed\<rparr>))"

text \<open>
  parameter.py. The thresholds of the script are the ascending array
  \<^verbatim>\<open>np.arange(0.2, 0.71, 0.02)\<close>; they are a parameter here. The plot file holds the
  thresholds and the three series of the sweep.
\<close>

definition parameter ::
  "(string \<rightharpoonup> 'p) \<Rightarrow> ('p \<Rightarrow> 'a corr_matrix) \<Rightarrow> ('a graph \<Rightarrow> error + real) \<Rightarrow> real list
     \<Rightarrow> (real list \<times> sweep_results) run" where
  "parameter fs corr average_clustering thresholds =
     (case fs local_filename of
        None \<Rightarrow>
          \<lparr>stdout = [Line ''Error: File '{local_filename}' not found.'' []],
           files = [], status = Exited\<rparr>
      | Some prices_df \<Rightarrow>
          (let corr_matrix = corr prices_df;
               N = length (columns corr_matrix);
               started = [Line ''Loaded and processed data for {N} stocks.'' [real N],
                          Line ''Running parameter study for different thresholds...'' []]
           in case sweep average_clustering corr_matrix thresholds no_results of
                Inl e \<Rightarrow> \<lparr>stdout = started, files = [], status = Raised e\<rparr>
              | Inr r \<Rightarrow>
                  \<lparr>stdout = started @
                     [Line ''Parameter study finished.'' [],
                      Line ''--- Parameter Study Complete ---'' [],
                      Line ''Plots saved to 'parameter_study_plot.png'.'' [],
                      Line ''These plots show:'' [],
                      Line ''1. How the network gets sparser as the threshold increases.'' [],
                      Line ''2. How clustering changes (it often increases as only tight cliques remain).'' [],
                      Line ''3. The 'Percolation Transition' where the network shatters, explaining why your LCC was only 23.7% at theta=0.5.'' []],
                   files = [(''parameter_study_plot.png'', (thresholds, r))],
                   status = Completed\<rparr>))"

section \<open>The fetch stage\<close>

text \<open>
  data\_fetch.py. What the network answers is a parameter of the run:
  \<^item> \<open>response\<close>: \<^verbatim>\<open>requests.get\<close> followed by \<^verbatim>\<open>raise_for_status\<close> either raises a
    \<^verbatim>\<open>RequestException\<close> or gives the body of the symbol list;
  \<^item> \<open>symbol_column\<close>: \<^verbatim>\<open>pd.read_csv(csv_data)['Symbol'].tolist()\<close>, which may raise an
    exception that the \<^verbatim>\<open>except\<close> clause of the script does not catch;
  \<^item> \<open>download\<close>: \<^verbatim>\<open>yf.download\<close> for one symbol: an exception, an empty frame, or the
    \<^verbatim>\<open>Close\<close> series;
  \<^item> \<open>clean\<close>: \<^verbatim>\<open>pd.concat(..., axis=1).dropna(axis=1)\<close>.
\<close>

datatype 'b response = RequestException | Response 'b

text \<open>Lines 15--25: the symbol list, or the empty list after a failed request.\<close>

definition fetch_symbols ::
  "'b response \<Rightarrow> ('b \<Rightarrow> error + string list) \<Rightarrow> error + (line list \<times> string list)" where
  "fetch_symbols response symbol_column =
     (case response of
        RequestException \<Rightarrow>
          Inr ([Line ''Error: Failed to download CSV file. {e}'' []], [])
      | Response body \<Rightarrow>
          (case symbol_column body of
             Inl e \<Rightarrow> Inl e
           | Inr symbols \<Rightarrow>
               (let symbols_ns = map (\<lambda>symbol. symbol @ ''.NS'') symbols
                in Inr ([Line ''Successfully fetched {len(symbols_ns)} stock symbols.''
                           [real (length symbols_ns)]], symbols_ns))))"

text \<open>Lines 38--58: one download per symbol; a failure or an empty answer skips the symbol.\<close>

fun download_all ::
  "(string \<Rightarrow> error + 's option) \<Rightarrow> string list \<Rightarrow> line list \<times> (string \<times> 's) list" where
  "download_all download [] = ([], [])"
| "download_all download (symbol # symbols) =
     (let (out, all_price_data) = download_all download symbols
      in case download symbol of
           Inl e \<Rightarrow> (Line ''Failed to get ticker '{symbol}' reason: {e}'' [] # out, all_price_data)
         | Inr None \<Rightarrow> (Line ''No data returned for {symbol}'' [] # out, all_price_data)
         | Inr (Some price_series) \<Rightarrow> (out, (symbol, price_series) # all_price_data))"

definition data_fetch ::
  "'b response \<Rightarrow> ('b \<Rightarrow> error + string list) \<Rightarrow> (string \<Rightarrow> error + 's option)
     \<Rightarrow> ((string \<times> 's) list \<Rightarrow> (string \<times> 's) list) \<Rightarrow> (string \<times> 's) list run" where
  "data_fetch response symbol_column download clean =
     (case fetch_symbols response symbol_column of
        Inl e \<Rightarrow>
          \<lparr>stdout = [Line ''Downloading stock list from {csv_url}...'' []],
           files = [], status = Raised e\<rparr>
      | Inr (fetched, symbols_ns) \<Rightarrow>
          (let head = Line ''Downloading stock list from {csv_url}...'' [] # fetched
           in if symbols_ns \<noteq> []
              then (let (out, all_price_data) = download_all download symbols_ns;
                        progress =
                          head @ [Line ''Downloading historical data for {len(symbols_ns)} stocks from {start_date} to {end_date}...''
                                    [real (length symbols_ns)]] @ out
                    in if all_price_data \<noteq> []
                       then (let cleaned_prices = clean all_price_data
                             in \<lparr>stdout = progress @
                                   [Line ''Successfully downloaded and combined data.'' [],
                                    Line ''Original number of symbols requested: {len(symbols_ns)}''
                                      [real (length symbols_ns)],
                                    Line ''Successfully downloaded data for: {len(all_price_data)} stocks''
                                      [real (length all_price_data)],
                                    Line ''Number of stocks after cleaning (no missing data): {len(cleaned_prices.columns)}''
                                      [real (length cleaned_prices)],
                                    Line ''Data saved to {local_filename}'' []],
                                 files = [(local_filename, cleaned_prices)],
                                 status = Completed\<rparr>)
                       else \<lparr>stdout = progress @ [Line ''No data was successfully downloaded.'' []],
                             files = [], status = Completed\<rparr>)
              else \<lparr>stdout = head, files = [], status = Completed\<rparr>))"

section \<open>The random-graph comparison\<close>

text \<open>
  graph\_analysis.py, lines 93--110, on the loaded graph \<^verbatim>\<open>G\<close> with
  \<^verbatim>\<open>N = G.number_of_nodes()\<close> and \<^verbatim>\<open>M = G.number_of_edges()\<close>:
  \<^verbatim>\<open>
  max_edges = (N * (N - 1)) / 2
  p = M / max_edges
  \<close>
\<close>

definition max_edges :: "'a graph \<Rightarrow> error + real" where
  "max_edges g =
     (let N = int (number_of_nodes g) in truediv (real_of_int (N * (N - 1))) 2)"

definition random_graph_p :: "'a graph \<Rightarrow> error + real" where
  "random_graph_p g =
     (let M = number_of_edges g
      in case max_edges g of
           Inl e \<Rightarrow> Inl e
         | Inr d \<Rightarrow> truediv (real M) d)"

text \<open>
  The whole step: the lines printed, and the exception that ended it, if any.
\<close>

definition clustering_comparison ::
  "('a graph \<Rightarrow> error + real) \<Rightarrow> 'a graph \<Rightarrow> line list \<times> error option" where
  "clustering_comparison average_clustering g =
     (case average_clustering g of
        Inl e \<Rightarrow> ([], Some e)
      | Inr C_stock \<Rightarrow>
          (let out = [Line ''Stock Network Average Clustering (C): {C_stock:.4f}'' [C_stock]]
           in case random_graph_p g of
                Inl e \<Rightarrow> (out, Some e)
              | Inr p \<Rightarrow>
                  (let C_random_theory = p;
                       out = out @ [Line ''Equivalent G(n,p) Random Graph Clustering (C = p): {C_random_theory:.4f}''
                                      [C_random_theory]]
                   in if C_random_theory > 0
                      then (case truediv C_stock C_random_theory of
                              Inl e \<Rightarrow> (out, Some e)
                            | Inr ratio \<Rightarrow>
                                (out @ [Line ''Interpretation: Your stock network's clustering is {C_stock/C_random_theory:.1f} times higher than a random graph.'' [ratio],
                                        Line ''This indicates high transitivity (cliques/groups), a key feature of real-world networks (like social networks).'' []],
                                 None))
                      else (out @ [Line ''Random graph has no clustering, comparison is not applicable.'' []],
                            None))))"

section \<open>Returns and correlation\<close>

text \<open>
  network\_construction.py, lines 19--26, and parameter.py, lines 17--19:
  \<^verbatim>\<open>
  log_returns_df = np.log(prices_df / prices_df.shift(1))
  log_returns_df = log_returns_df.dropna()
  corr_matrix = log_returns_df.corr(method='pearson')
  \<close>
  The price table has one row per date and one price per symbol in every row. A price is
  modelled by the real it denotes, and so is every float computed from it.
\<close>

record 'a price_table =
  price_symbols :: "'a list"
  price_rows :: "real list list"

text \<open>
  One entry of \<^verbatim>\<open>np.log(prices_df / prices_df.shift(1))\<close>: the logarithm of the ratio of a
  price to the price of the row before. It is a number when both prices are positive; with a
  price that is not positive numpy gives NaN or an infinite value, and the model writes NaN.
\<close>

definition log_ratio :: "real \<Rightarrow> real \<Rightarrow> float64" where
  "log_ratio prev cur = (if 0 < prev \<and> 0 < cur then Num (ln (cur / prev)) else NaN)"

fun shifted_log :: "real list \<Rightarrow> real list list \<Rightarrow> float64 list list" where
  "shifted_log prev [] = []"
| "shifted_log prev (row # rows) = map2 log_ratio prev row # shifted_log row rows"

text \<open>The first row has no row before it: \<^verbatim>\<open>shift(1)\<close> makes all its entries NaN.\<close>

definition log_returns :: "real list list \<Rightarrow> float64 list list" where
  "log_returns rows =
     (case rows of
        [] \<Rightarrow> []
      | row # rest \<Rightarrow> map (\<lambda>p. NaN) row # shifted_log row rest)"

text \<open>\<^verbatim>\<open>dropna()\<close> keeps the rows without any NaN.\<close>

fun numbers :: "float64 list \<Rightarrow> real list option" where
  "numbers [] = Some []"
| "numbers (NaN # cells) = None"
| "numbers (Num x # cells) = map_option ((#) x) (numbers cells)"

definition dropna :: "float64 list list \<Rightarrow> real list list" where
  "dropna rows = List.map_filter numbers rows"

text \<open>
  \<^verbatim>\<open>corr(method='pearson')\<close> is a call into pandas, modelled by what the library computes for
  two columns without missing values: the sum of the products of the deviations from the
  means, divided by the square root of the product of the two sums of squared deviations,
  and NaN when that divisor is zero (a column that does not vary, or no row at all).
\<close>

definition mean_of :: "real list \<Rightarrow> real" where
  "mean_of xs = sum_list xs / real (length xs)"



definition column_of :: "nat \<Rightarrow> real list list \<Rightarrow> real list" where
  "column_of i rows = map (\<lambda>row. row ! i) rows"

text \<open>The frame of the log-returns and the correlation matrix of a price table.\<close>

definition log_returns_df :: "'a price_table \<Rightarrow> real list list" where
  "log_returns_df prices_df = dropna (log_returns (price_rows prices_df))"


section \<open>A worked example\<close>

text \<open>
  Three symbols with pairwise correlations AB = 0.6, AC = 0.3, BC = 0.55.
\<close>

definition example_corr :: "string corr_matrix" where
  "example_corr =
     \<lparr>columns = [''A'', ''B'', ''C''],
      iloc = (\<lambda>i j. if i = j then Num 1
                    else if i + j = 1 then Num 0.6
                    else if i + j = 2 then Num 0.3
                    else Num 0.55)\<rparr>"

text \<open>
  The same symbols when B has zero variance: every correlation with B is NaN.
\<close>

definition example_nan_corr :: "string corr_matrix" where
  "example_nan_corr =
     \<lparr>columns = [''A'', ''B'', ''C''],
      iloc = (\<lambda>i j. if i = 1 \<or> j = 1 then NaN
                    else if i = j then Num 1
                    else Num 0.3)\<rparr>"

text \<open>A price table without any symbol column gives a correlation matrix without columns.\<close>

definition empty_corr :: "string corr_matrix" where
  "empty_corr = \<lparr>columns = [], iloc = (\<lambda>i j. NaN)\<rparr>"

text \<open>A graph of one node, and a clustering function that answers 0 on every graph.\<close>

definition single_node :: "string graph" where
  "single_node = add_node ''A'' Graph"

definition zero_clustering :: "'a graph \<Rightarrow> error + real" where
  "zero_clustering g = Inr 0"

text \<open>A symbol column without symbols, and a download that never returns data.\<close>

definition no_download :: "string \<Rightarrow> error + real list option" where
  "no_download symbol = Inr None"

definition no_symbols :: "string \<Rightarrow> error + string list" where
  "no_symbols body = Inr []"

text \<open>Two symbols over three dates: A doubles first, B doubles last.\<close>

definition example_prices :: "string price_table" where
  "example_prices = \<lparr>price_symbols = [''A'', ''B''], price_rows = [[1, 1], [2, 1], [2, 2]]\<rparr>"

section \<open>Properties of the graph operations\<close>

lemma nodes_add_node_set: "set (nodes (add_node v g)) = insert v (set (nodes g))"
  by (auto simp: add_node_def)

lemma edges_add_node: "edges (add_node v g) = edges g"
  by (simp add: add_node_def)

lemma distinct_add_node: "distinct (nodes g) \<Longrightarrow> distinct (nodes (add_node v g))"
  by (simp add: add_node_def)

lemma add_node_known: "v \<in> set (nodes g) \<Longrightarrow> add_node v g = g"
  by (simp add: add_node_def)

lemma edges_add_nodes_from: "edges (add_nodes_from vs g) = edges g"
  unfolding add_nodes_from_def
  by (induction vs arbitrary: g) (simp_all add: edges_add_node)

lemma nodes_add_nodes_from_set:
  "set (nodes (add_nodes_from vs g)) = set (nodes g) \<union> set vs"
  unfolding add_nodes_from_def
  by (induction vs arbitrary: g) (auto simp: nodes_add_node_set)

lemma nodes_add_nodes_from_append:
  "distinct (nodes g @ vs) \<Longrightarrow> nodes (add_nodes_from vs g) = nodes g @ vs"
  unfolding add_nodes_from_def
proof (induction vs arbitrary: g)
  case Nil
  then show ?case by simp
next
  case (Cons v vs)
  from Cons.prems have fresh: "v \<notin> set (nodes g)" by auto
  then have step: "nodes (add_node v g) = nodes g @ [v]"
    by (simp add: add_node_def)
  with Cons.prems have "distinct (nodes (add_node v g) @ vs)" by auto
  from Cons.IH [OF this] step show ?case by simp
qed

lemma nodes_add_nodes_from_Graph:
  "distinct vs \<Longrightarrow> nodes (add_nodes_from vs Graph) = vs"
  using nodes_add_nodes_from_append [of Graph vs] by (simp add: Graph_def)

lemma has_edge_edge_set: "has_edge g u v \<longleftrightarrow> {u, v} \<in> edge_set g"
  by (auto simp: has_edge_def edge_set_def doubleton_eq_iff)

lemma has_edge_add_node: "has_edge (add_node w g) u v = has_edge g u v"
  by (simp add: has_edge_def edges_add_node)

lemma edge_set_add_node: "edge_set (add_node w g) = edge_set g"
  by (simp add: edge_set_def edges_add_node)

lemma set_weight_ends: "{fst (set_weight u v x e), fst (snd (set_weight u v x e))} = {fst e, fst (snd e)}"
  by (simp add: set_weight_def)

lemma edge_set_add_edge: "edge_set (add_edge u v attr g) = insert {u, v} (edge_set g)"
proof -
  let ?g = "add_node v (add_node u g)"
  have base: "edge_set ?g = edge_set g"
    by (simp add: edge_set_add_node)
  show ?thesis
  proof (cases "has_edge ?g u v")
    case True
    then have mem: "{u, v} \<in> edge_set g"
      using base by (simp add: has_edge_edge_set)
    have "edge_set (add_edge u v attr g) = edge_set ?g"
    proof (cases attr)
      case None
      with True show ?thesis by (simp add: add_edge_def Let_def)
    next
      case (Some x)
      have "edge_set (?g\<lparr>edges := map (set_weight u v x) (edges ?g)\<rparr>) = edge_set ?g"
        by (simp add: edge_set_def image_image set_weight_ends)
      with True Some show ?thesis by (simp add: add_edge_def Let_def)
    qed
    with base mem show ?thesis by auto
  next
    case False
    then have "edge_set (add_edge u v attr g) = insert {u, v} (edge_set ?g)"
      by (simp add: add_edge_def edge_set_def Let_def)
    with base show ?thesis by simp
  qed
qed

lemma nodes_add_edge_known:
  "u \<in> set (nodes g) \<Longrightarrow> v \<in> set (nodes g) \<Longrightarrow> nodes (add_edge u v attr g) = nodes g"
  by (simp add: add_edge_def add_node_known Let_def split: option.splits)

section \<open>Properties of the construction loops\<close>

lemma edge_set_inner:
  "edge_set (fold (\<lambda>j g. if P j then add_edge u (h j) (a j) g else g) js g)
     = edge_set g \<union> (\<lambda>j. {u, h j}) ` {j \<in> set js. P j}"
  by (induction js arbitrary: g) (auto simp: edge_set_add_edge)

lemma edge_set_outer:
  "edge_set (fold (\<lambda>i g. fold (\<lambda>j g. if P i j then add_edge (f i) (h j) (a i j) g else g) (J i) g) is g)
     = edge_set g \<union> (\<Union>i \<in> set is. (\<lambda>j. {f i, h j}) ` {j \<in> set (J i). P i j})"
  by (induction "is" arbitrary: g) (auto simp: edge_set_inner)

lemma nodes_inner:
  "u \<in> set (nodes g) \<Longrightarrow> \<forall>j \<in> set js. h j \<in> set (nodes g) \<Longrightarrow>
   nodes (fold (\<lambda>j g. if P j then add_edge u (h j) (a j) g else g) js g) = nodes g"
  by (induction js arbitrary: g) (auto simp: nodes_add_edge_known)

lemma nodes_outer:
  "\<forall>i \<in> set is. f i \<in> set (nodes g) \<and> (\<forall>j \<in> set (J i). h j \<in> set (nodes g)) \<Longrightarrow>
   nodes (fold (\<lambda>i g. fold (\<lambda>j g. if P i j then add_edge (f i) (h j) (a i j) g else g) (J i) g) is g) = nodes g"
  by (induction "is" arbitrary: g) (auto simp: nodes_inner)


lemma simple_add_edge:
  assumes "simple g"
  shows "simple (add_edge u v attr g)"
proof -
  let ?g = "add_node v (add_node u g)"
  have s: "simple ?g"
    using assms by (simp add: simple_def edges_add_node)
  show ?thesis
  proof (cases "has_edge ?g u v")
    case True
    with s show ?thesis
      by (cases attr) (simp_all add: add_edge_def Let_def simple_def comp_def set_weight_ends)
  next
    case False
    then have "{u, v} \<notin> edge_set ?g"
      by (simp add: has_edge_edge_set)
    with s False show ?thesis
      by (simp add: add_edge_def Let_def simple_def edge_set_def)
  qed
qed

lemma simple_inner:
  "simple g \<Longrightarrow> simple (fold (\<lambda>j g. if P j then add_edge u (h j) (a j) g else g) js g)"
  by (induction js arbitrary: g) (auto simp: simple_add_edge)

lemma simple_outer:
  "simple g \<Longrightarrow> simple (fold (\<lambda>i g. fold (\<lambda>j g. if P i j then add_edge (f i) (h j) (a i j) g else g) (J i) g) is g)"
  by (induction "is" arbitrary: g) (auto simp: simple_inner)

lemma simple_card: "simple g \<Longrightarrow> number_of_edges g = card (edge_set g)"
  unfolding simple_def number_of_edges_def edge_set_def
  using distinct_card [of "map (\<lambda>e. {fst e, fst (snd e)}) (edges g)"]
  by simp

lemma G_theta_edge_set:
  "edge_set (G_theta m \<theta>) =
     {{columns m ! i, columns m ! j} | i j. i < j \<and> j < length (columns m) \<and> ge (iloc m i j) \<theta>}"
proof -
  have init: "edge_set (add_nodes_from (columns m) Graph) = {}"
    by (simp add: edge_set_def edges_add_nodes_from Graph_def)
  show ?thesis
    unfolding G_theta_def Let_def edge_set_outer init
  proof (intro set_eqI iffI, goal_cases)
    case (1 e)
    then show ?case by (auto simp: Suc_le_eq)
  next
    case (2 e)
    then obtain i j where "e = {columns m ! i, columns m ! j}" "i < j" "j < length (columns m)"
      "ge (iloc m i j) \<theta>" by blast
    then show ?case
      by (auto simp: Suc_le_eq intro!: bexI [of _ i])
  qed
qed

lemma G_edge_set:
  "edge_set (G m) =
     {{columns m ! i, columns m ! j} | i j. i < j \<and> j < length (columns m) \<and> ge (iloc m i j) theta_default}"
proof -
  have init: "edge_set (add_nodes_from (columns m) Graph) = {}"
    by (simp add: edge_set_def edges_add_nodes_from Graph_def)
  show ?thesis
    unfolding G_def Let_def edge_set_outer init
  proof (intro set_eqI iffI, goal_cases)
    case (1 e)
    then show ?case by (auto simp: Suc_le_eq)
  next
    case (2 e)
    then obtain i j where "e = {columns m ! i, columns m ! j}" "i < j" "j < length (columns m)"
      "ge (iloc m i j) theta_default" by blast
    then show ?case
      by (auto simp: Suc_le_eq intro!: bexI [of _ i])
  qed
qed

lemma G_theta_nodes: "distinct (columns m) \<Longrightarrow> nodes (G_theta m \<theta>) = columns m"
  unfolding G_theta_def Let_def
  by (subst nodes_outer) (auto simp: nodes_add_nodes_from_Graph)

lemma G_nodes: "distinct (columns m) \<Longrightarrow> nodes (G m) = columns m"
  unfolding G_def Let_def
  by (subst nodes_outer) (auto simp: nodes_add_nodes_from_Graph)

lemma G_theta_nodes_set: "set (nodes (G_theta m \<theta>)) = set (columns m)"
  unfolding G_theta_def Let_def
  by (subst nodes_outer) (auto simp: nodes_add_nodes_from_set Graph_def)

lemma G_theta_nodes_indep: "nodes (G_theta m \<theta>) = nodes (add_nodes_from (columns m) Graph)"
  unfolding G_theta_def Let_def
  by (subst nodes_outer) (auto simp: nodes_add_nodes_from_set Graph_def)

lemma G_theta_simple: "simple (G_theta m \<theta>)"
  unfolding G_theta_def Let_def
  by (rule simple_outer) (simp add: simple_def edges_add_nodes_from Graph_def)

lemma G_simple: "simple (G m)"
  unfolding G_def Let_def
  by (rule simple_outer) (simp add: simple_def edges_add_nodes_from Graph_def)

section \<open>The edges of the threshold graph\<close>

lemma nth_pair_eq:
  assumes "distinct xs" "i < length xs" "j < length xs" "a < length xs" "b < length xs"
  shows "{xs ! i, xs ! j} = {xs ! a, xs ! b} \<longleftrightarrow> (i = a \<and> j = b) \<or> (i = b \<and> j = a)"
  using assms by (auto simp: doubleton_eq_iff nth_eq_iff_index_eq)

lemma G_theta_has_edge_iff:
  assumes d: "distinct (columns m)" and i: "i < length (columns m)" and j: "j < length (columns m)"
  shows "has_edge (G_theta m \<theta>) (columns m ! i) (columns m ! j)
           = (i \<noteq> j \<and> ge (iloc m (min i j) (max i j)) \<theta>)"
proof
  assume "has_edge (G_theta m \<theta>) (columns m ! i) (columns m ! j)"
  then have "{columns m ! i, columns m ! j} \<in> {{columns m ! a, columns m ! b} | a b.
      a < b \<and> b < length (columns m) \<and> ge (iloc m a b) \<theta>}"
    by (simp only: has_edge_edge_set G_theta_edge_set)
  then obtain a b where ab: "{columns m ! i, columns m ! j} = {columns m ! a, columns m ! b}"
    "a < b" "b < length (columns m)" "ge (iloc m a b) \<theta>"
    by blast
  then have "(i = a \<and> j = b) \<or> (i = b \<and> j = a)"
    using nth_pair_eq [OF d i j, of a b] by simp
  with ab show "i \<noteq> j \<and> ge (iloc m (min i j) (max i j)) \<theta>"
    by (auto simp: min_def max_def)
next
  assume r: "i \<noteq> j \<and> ge (iloc m (min i j) (max i j)) \<theta>"
  then have "min i j < max i j" "max i j < length (columns m)"
    using i j by (auto simp: min_def max_def)
  with r have "{columns m ! min i j, columns m ! max i j} \<in> edge_set (G_theta m \<theta>)"
    unfolding G_theta_edge_set by blast
  moreover have "{columns m ! min i j, columns m ! max i j} = {columns m ! i, columns m ! j}"
    by (auto simp: min_def max_def)
  ultimately show "has_edge (G_theta m \<theta>) (columns m ! i) (columns m ! j)"
    by (simp add: has_edge_edge_set)
qed

lemma has_edge_sym: "has_edge g u v = has_edge g v u"
  by (auto simp: has_edge_def)

lemma G_theta_has_edge_ends:
  assumes d: "distinct (columns m)" and h: "has_edge (G_theta m \<theta>) u v"
  shows "u \<noteq> v \<and> u \<in> set (columns m) \<and> v \<in> set (columns m)"
proof -
  from h have "{u, v} \<in> {{columns m ! a, columns m ! b} | a b.
      a < b \<and> b < length (columns m) \<and> ge (iloc m a b) \<theta>}"
    by (simp only: has_edge_edge_set G_theta_edge_set)
  then obtain a b where ab: "{u, v} = {columns m ! a, columns m ! b}"
    "a < b" "b < length (columns m)"
    by blast
  then have "columns m ! a \<noteq> columns m ! b"
    using d by (simp add: nth_eq_iff_index_eq)
  with ab show ?thesis
    by (auto simp: doubleton_eq_iff)
qed

lemma G_edge_set_eq: "edge_set (G m) = edge_set (G_theta m theta_default)"
  by (simp add: G_edge_set G_theta_edge_set)

lemma ge_mono: "\<theta>1 \<le> \<theta>2 \<Longrightarrow> ge x \<theta>2 \<Longrightarrow> ge x \<theta>1"
  by (cases x) auto

lemma G_theta_edge_set_mono:
  assumes "\<theta>1 \<le> \<theta>2"
  shows "edge_set (G_theta m \<theta>2) \<subseteq> edge_set (G_theta m \<theta>1)"
  unfolding G_theta_edge_set using ge_mono [OF assms] by blast

text \<open>
  C1. When the column labels are pairwise different (as \<^verbatim>\<open>read_csv\<close> makes them), the
  graph built for a threshold \<open>\<theta>\<close> has exactly the symbols as nodes, and two symbols are
  joined, in either direction, exactly when they are different and their correlation (the
  entry above the diagonal, the one the loop reads; either entry when the matrix is
  symmetric) is \<open>\<ge> \<theta>\<close>. An entry equal to \<open>\<theta>\<close> gives an edge. No edge is a self-loop or leaves the symbols. The weighted graph of
  network\_construction.py has the same nodes and the edge set of the threshold 0.5.
\<close>

theorem threshold_graph_edges:
  assumes "distinct (columns m)"
  shows "nodes (G_theta m \<theta>) = columns m
     \<and> (\<forall>i < length (columns m). \<forall>j < length (columns m).
           has_edge (G_theta m \<theta>) (columns m ! i) (columns m ! j)
             = (i \<noteq> j \<and> ge (iloc m (min i j) (max i j)) \<theta>))
     \<and> ((\<forall>i < length (columns m). \<forall>j < length (columns m). iloc m i j = iloc m j i)
           \<longrightarrow> (\<forall>i < length (columns m). \<forall>j < length (columns m).
                  has_edge (G_theta m \<theta>) (columns m ! i) (columns m ! j)
                    = (i \<noteq> j \<and> ge (iloc m i j) \<theta>)))
     \<and> (\<forall>i j. i < j \<and> j < length (columns m) \<and> iloc m i j = Num \<theta>
           \<longrightarrow> has_edge (G_theta m \<theta>) (columns m ! i) (columns m ! j))
     \<and> (\<forall>u v. has_edge (G_theta m \<theta>) u v
           \<longrightarrow> has_edge (G_theta m \<theta>) v u \<and> u \<noteq> v \<and> u \<in> set (columns m) \<and> v \<in> set (columns m))
     \<and> edge_set (G_theta m \<theta>)
          = {{columns m ! i, columns m ! j} | i j.
               i < j \<and> j < length (columns m) \<and> ge (iloc m i j) \<theta>}
     \<and> nodes (G m) = columns m
     \<and> edge_set (G m) = edge_set (G_theta m theta_default)"
proof (intro conjI allI impI)
  show "nodes (G_theta m \<theta>) = columns m"
    using assms by (rule G_theta_nodes)
  show "nodes (G m) = columns m"
    using assms by (rule G_nodes)
  show "edge_set (G m) = edge_set (G_theta m theta_default)"
    by (rule G_edge_set_eq)
  show "edge_set (G_theta m \<theta>)
          = {{columns m ! i, columns m ! j} | i j.
               i < j \<and> j < length (columns m) \<and> ge (iloc m i j) \<theta>}"
    by (rule G_theta_edge_set)
next
  fix i j assume "i < length (columns m)" "j < length (columns m)"
  then show "has_edge (G_theta m \<theta>) (columns m ! i) (columns m ! j)
             = (i \<noteq> j \<and> ge (iloc m (min i j) (max i j)) \<theta>)"
    using assms by (simp add: G_theta_has_edge_iff)
next
  fix i j
  assume sym: "\<forall>i < length (columns m). \<forall>j < length (columns m). iloc m i j = iloc m j i"
    and i: "i < length (columns m)" and j: "j < length (columns m)"
  from sym i j have "iloc m (min i j) (max i j) = iloc m i j"
    by (cases "i \<le> j") (simp_all add: min_def max_def)
  with i j show "has_edge (G_theta m \<theta>) (columns m ! i) (columns m ! j)
             = (i \<noteq> j \<and> ge (iloc m i j) \<theta>)"
    using assms by (simp add: G_theta_has_edge_iff)
next
  fix i j assume h: "i < j \<and> j < length (columns m) \<and> iloc m i j = Num \<theta>"
  then show "has_edge (G_theta m \<theta>) (columns m ! i) (columns m ! j)"
    using assms by (simp add: G_theta_has_edge_iff min_def max_def)
next
  fix u v assume h: "has_edge (G_theta m \<theta>) u v"
  then show "has_edge (G_theta m \<theta>) v u"
    by (simp add: has_edge_sym)
  from G_theta_has_edge_ends [OF assms h]
  show "u \<noteq> v" "u \<in> set (columns m)" "v \<in> set (columns m)"
    by simp_all
qed

theorem threshold_graph_edges_witness:
  "distinct (columns example_corr)
   \<and> iloc example_corr 0 1 = iloc example_corr 1 0
   \<and> has_edge (G_theta example_corr 0.55) ''A'' ''B''
   \<and> nodes (G_theta example_corr 0.55) = [''A'', ''B'', ''C'']
   \<and> has_edge (G_theta example_corr 0.55) ''B'' ''C''
   \<and> has_edge (G_theta example_corr 0.55) ''C'' ''B''
   \<and> \<not> has_edge (G_theta example_corr 0.55) ''A'' ''C''"
proof -
  have d: "distinct (columns example_corr)"
    by (simp add: example_corr_def)
  have "iloc example_corr i j = iloc example_corr j i" for i j
    by (cases "i = j") (simp_all add: example_corr_def add.commute)
  then have sym: "\<forall>i < length (columns example_corr). \<forall>j < length (columns example_corr).
         iloc example_corr i j = iloc example_corr j i"
    by simp
  note t = threshold_graph_edges [OF d, of "0.55"]
  note n = t [THEN conjunct1]
  note e = t [THEN conjunct2, THEN conjunct1]
  note y = t [THEN conjunct2, THEN conjunct2, THEN conjunct1, THEN mp, OF sym, rule_format]
  note s = t [THEN conjunct2, THEN conjunct2, THEN conjunct2, THEN conjunct2, THEN conjunct1]
  from e [rule_format, of 1 2] have bc: "has_edge (G_theta example_corr 0.55) ''B'' ''C''"
    by (simp add: example_corr_def)
  from e [rule_format, of 0 2] have ac: "\<not> has_edge (G_theta example_corr 0.55) ''A'' ''C''"
    by (simp add: example_corr_def)
  from s [rule_format, OF bc] have cb: "has_edge (G_theta example_corr 0.55) ''C'' ''B''"
    by (rule conjunct1)
  from y [of 0 1] have ab: "has_edge (G_theta example_corr 0.55) ''A'' ''B''"
    by (simp add: example_corr_def)
  from n have n': "nodes (G_theta example_corr 0.55) = [''A'', ''B'', ''C'']"
    by (simp add: example_corr_def)
  have s01: "iloc example_corr 0 1 = iloc example_corr 1 0"
    by (simp add: example_corr_def)
  from d s01 ab n' bc cb ac show ?thesis
    by (intro conjI)
qed

text \<open>
  C2. Monotonic thinning: raising the threshold can only remove edges.
\<close>

theorem monotonic_thinning:
  "\<theta>1 \<le> \<theta>2 \<Longrightarrow> edge_set (G_theta m \<theta>2) \<subseteq> edge_set (G_theta m \<theta>1)"
  by (rule G_theta_edge_set_mono)

theorem monotonic_thinning_witness:
  "(0.5::real) \<le> 0.58
   \<and> edge_set (G_theta example_corr 0.58) \<subseteq> edge_set (G_theta example_corr 0.5)"
  using monotonic_thinning [of "0.5" "0.58" example_corr] by simp

lemma G_has_edge: "has_edge (G m) u v = has_edge (G_theta m theta_default) u v"
  by (simp add: has_edge_edge_set G_edge_set_eq)

lemma G_theta_isolated:
  assumes d: "distinct (columns m)" and k: "k < length (columns m)"
    and nan: "\<forall>i < length (columns m). i \<noteq> k \<longrightarrow> iloc m (min i k) (max i k) = NaN"
  shows "\<not> has_edge (G_theta m \<theta>) (columns m ! k) v"
proof
  assume h: "has_edge (G_theta m \<theta>) (columns m ! k) v"
  from G_theta_has_edge_ends [OF d h] obtain i where
    i: "i < length (columns m)" "v = columns m ! i"
    by (auto simp: in_set_conv_nth)
  with h have "k \<noteq> i \<and> ge (iloc m (min k i) (max k i)) \<theta>"
    using G_theta_has_edge_iff [OF d k i(1), of \<theta>] by simp
  with nan i(1) show False
    by (auto simp: min.commute max.commute)
qed

text \<open>
  C9. A pair of symbols whose correlation entry is NaN is never joined, at any threshold
  (also at \<open>\<theta> = -1\<close>): the comparison with NaN is false, the construction has no error
  path, and a symbol all of whose correlations are NaN stays a node without any edge.
\<close>

theorem nan_never_edge:
  assumes "distinct (columns m)"
  shows "(\<forall>i < length (columns m). \<forall>j < length (columns m).
            iloc m (min i j) (max i j) = NaN
            \<longrightarrow> \<not> has_edge (G_theta m \<theta>) (columns m ! i) (columns m ! j)
              \<and> \<not> has_edge (G m) (columns m ! i) (columns m ! j))
       \<and> (\<forall>k < length (columns m).
            (\<forall>i < length (columns m). i \<noteq> k \<longrightarrow> iloc m (min i k) (max i k) = NaN)
            \<longrightarrow> columns m ! k \<in> set (nodes (G_theta m \<theta>))
              \<and> (\<forall>v. \<not> has_edge (G_theta m \<theta>) (columns m ! k) v)
              \<and> columns m ! k \<in> set (nodes (G m))
              \<and> (\<forall>v. \<not> has_edge (G m) (columns m ! k) v))"
proof (intro conjI allI impI)
  fix i j
  assume "i < length (columns m)" "j < length (columns m)" "iloc m (min i j) (max i j) = NaN"
  then show "\<not> has_edge (G_theta m \<theta>) (columns m ! i) (columns m ! j)"
    "\<not> has_edge (G m) (columns m ! i) (columns m ! j)"
    using assms by (simp_all add: G_has_edge G_theta_has_edge_iff)
next
  fix k v
  assume k: "k < length (columns m)"
    and nan: "\<forall>i < length (columns m). i \<noteq> k \<longrightarrow> iloc m (min i k) (max i k) = NaN"
  show "columns m ! k \<in> set (nodes (G_theta m \<theta>))"
    using k assms by (simp add: G_theta_nodes)
  show "columns m ! k \<in> set (nodes (G m))"
    using k assms by (simp add: G_nodes)
  show "\<not> has_edge (G_theta m \<theta>) (columns m ! k) v"
    by (rule G_theta_isolated [OF assms k nan])
  show "\<not> has_edge (G m) (columns m ! k) v"
    unfolding G_has_edge by (rule G_theta_isolated [OF assms k nan])
qed

theorem nan_never_edge_witness:
  "distinct (columns example_nan_corr)
   \<and> iloc example_nan_corr 0 1 = NaN
   \<and> \<not> has_edge (G_theta example_nan_corr (- 1)) ''A'' ''B''
   \<and> ''B'' \<in> set (nodes (G_theta example_nan_corr (- 1)))
   \<and> (\<forall>v. \<not> has_edge (G_theta example_nan_corr (- 1)) ''B'' v)
   \<and> has_edge (G_theta example_nan_corr (- 1)) ''A'' ''C''"
proof -
  have d: "distinct (columns example_nan_corr)"
    by (simp add: example_nan_corr_def)
  note t = nan_never_edge [OF d, of "- 1"]
  from t have p: "\<forall>i < length (columns example_nan_corr). \<forall>j < length (columns example_nan_corr).
            iloc example_nan_corr (min i j) (max i j) = NaN
            \<longrightarrow> \<not> has_edge (G_theta example_nan_corr (- 1)) (columns example_nan_corr ! i) (columns example_nan_corr ! j)
              \<and> \<not> has_edge (G example_nan_corr) (columns example_nan_corr ! i) (columns example_nan_corr ! j)"
    by (rule conjunct1)
  from p [rule_format, of 0 1] have ab: "\<not> has_edge (G_theta example_nan_corr (- 1)) ''A'' ''B''"
    by (simp add: example_nan_corr_def)
  from t have q: "\<forall>k < length (columns example_nan_corr).
            (\<forall>i < length (columns example_nan_corr). i \<noteq> k \<longrightarrow> iloc example_nan_corr (min i k) (max i k) = NaN)
            \<longrightarrow> columns example_nan_corr ! k \<in> set (nodes (G_theta example_nan_corr (- 1)))
              \<and> (\<forall>v. \<not> has_edge (G_theta example_nan_corr (- 1)) (columns example_nan_corr ! k) v)
              \<and> columns example_nan_corr ! k \<in> set (nodes (G example_nan_corr))
              \<and> (\<forall>v. \<not> has_edge (G example_nan_corr) (columns example_nan_corr ! k) v)"
    by (rule conjunct2)
  have row: "\<forall>i < length (columns example_nan_corr). i \<noteq> 1 \<longrightarrow> iloc example_nan_corr (min i 1) (max i 1) = NaN"
    by (simp add: example_nan_corr_def min_def max_def)
  from q [THEN spec, of 1] row
  have b: "''B'' \<in> set (nodes (G_theta example_nan_corr (- 1)))
      \<and> (\<forall>v. \<not> has_edge (G_theta example_nan_corr (- 1)) ''B'' v)"
    by (simp add: example_nan_corr_def)
  have ac: "has_edge (G_theta example_nan_corr (- 1)) ''A'' ''C''"
    using G_theta_has_edge_iff [OF d, of 0 2 "- 1"] by (simp add: example_nan_corr_def)
  from d ab b ac show ?thesis
    by (simp add: example_nan_corr_def)
qed

section \<open>Mean degree\<close>

lemma G_nodes_indep: "nodes (G m) = nodes (add_nodes_from (columns m) Graph)"
  unfolding G_def Let_def
  by (subst nodes_outer) (auto simp: nodes_add_nodes_from_set Graph_def)

lemma G_theta_no_nodes: "(number_of_nodes (G_theta m \<theta>) = 0) = (columns m = [])"
  using G_theta_nodes_set [of m \<theta>] by (auto simp: number_of_nodes_def)

lemma G_no_nodes: "(number_of_nodes (G m) = 0) = (columns m = [])"
proof -
  have "set (nodes (G m)) = set (columns m)"
    by (simp add: G_nodes_indep nodes_add_nodes_from_set Graph_def)
  then show ?thesis
    by (auto simp: number_of_nodes_def)
qed

lemma avg_k_value:
  "avg_k g = Inr (if number_of_nodes g = 0 then 0
                  else 2 * real (number_of_edges g) / real (number_of_nodes g))"
  by (simp add: avg_k_def truediv_def)

lemma avg_degree_value:
  "avg_degree g = (if number_of_nodes g = 0 then Inl ZeroDivisionError
                   else Inr (2 * real (number_of_edges g) / real (number_of_nodes g)))"
  by (simp add: avg_degree_def truediv_def)

lemma report_avg_degree_value:
  "report_avg_degree g =
     (if number_of_nodes g = 0 then [Line ''Error: Graph has no nodes.'' []]
      else [Line ''Average Degree <k>: {avg_degree:.2f}''
              [2 * real (number_of_edges g) / real (number_of_nodes g)],
            Line ''Network Density: {density:.4f}'' []])"
  by (simp add: report_avg_degree_def avg_degree_value)

text \<open>
  C3, as amended. For every constructed threshold graph with at least one node, the mean
  degree that is reported equals \<open>2 * edge_count / node_count\<close>, where the edge count is the
  number of unordered pairs joined and the node count the number of symbols. With no node
  the computation is guarded in both scripts: the sweep of parameter.py sets the mean
  degree to 0, while network\_construction.py catches the \<^verbatim>\<open>ZeroDivisionError\<close> and prints
  \<^verbatim>\<open>Error: Graph has no nodes.\<close> in place of a mean degree.
\<close>

theorem mean_degree:
  "avg_k (G_theta m \<theta>) =
     Inr (if columns m = [] then 0
          else 2 * real (card (edge_set (G_theta m \<theta>))) / real (number_of_nodes (G_theta m \<theta>)))
   \<and> avg_degree (G m) =
       (if columns m = [] then Inl ZeroDivisionError
        else Inr (2 * real (card (edge_set (G m))) / real (number_of_nodes (G m))))
   \<and> report_avg_degree (G m) =
       (if columns m = [] then [Line ''Error: Graph has no nodes.'' []]
        else [Line ''Average Degree <k>: {avg_degree:.2f}''
                [2 * real (card (edge_set (G m))) / real (number_of_nodes (G m))],
              Line ''Network Density: {density:.4f}'' []])
   \<and> number_of_edges (G_theta m \<theta>) = card (edge_set (G_theta m \<theta>))
   \<and> number_of_edges (G m) = card (edge_set (G m))
   \<and> (number_of_nodes (G_theta m \<theta>) = 0) = (columns m = [])
   \<and> (number_of_nodes (G m) = 0) = (columns m = [])
   \<and> (distinct (columns m) \<longrightarrow>
        number_of_nodes (G_theta m \<theta>) = length (columns m)
        \<and> number_of_nodes (G m) = length (columns m))"
proof -
  have e1: "number_of_edges (G_theta m \<theta>) = card (edge_set (G_theta m \<theta>))"
    by (rule simple_card [OF G_theta_simple])
  have e2: "number_of_edges (G m) = card (edge_set (G m))"
    by (rule simple_card [OF G_simple])
  note n1 = G_theta_no_nodes [of m \<theta>] and n2 = G_no_nodes [of m]
  have a: "avg_k (G_theta m \<theta>) =
     Inr (if columns m = [] then 0
          else 2 * real (card (edge_set (G_theta m \<theta>))) / real (number_of_nodes (G_theta m \<theta>)))"
    unfolding avg_k_value n1 e1 ..
  have b: "avg_degree (G m) =
       (if columns m = [] then Inl ZeroDivisionError
        else Inr (2 * real (card (edge_set (G m))) / real (number_of_nodes (G m))))"
    unfolding avg_degree_value n2 e2 ..
  have c: "report_avg_degree (G m) =
       (if columns m = [] then [Line ''Error: Graph has no nodes.'' []]
        else [Line ''Average Degree <k>: {avg_degree:.2f}''
                [2 * real (card (edge_set (G m))) / real (number_of_nodes (G m))],
              Line ''Network Density: {density:.4f}'' []])"
    unfolding report_avg_degree_value n2 e2 ..
  have d: "distinct (columns m) \<longrightarrow>
        number_of_nodes (G_theta m \<theta>) = length (columns m)
        \<and> number_of_nodes (G m) = length (columns m)"
    by (simp add: number_of_nodes_def G_theta_nodes G_nodes)
  from a b c e1 e2 n1 n2 d show ?thesis
    by (intro conjI)
qed

lemma empty_corr_columns: "columns empty_corr = []"
  by (simp add: empty_corr_def)

theorem mean_degree_witness:
  "distinct (columns example_corr)
   \<and> number_of_nodes (G_theta example_corr 0.5) = 3
   \<and> card (edge_set (G_theta example_corr 0.5)) = 2
   \<and> avg_k (G_theta example_corr 0.5) = Inr (4 / 3)
   \<and> avg_degree (G example_corr) = Inr (4 / 3)
   \<and> avg_k (G_theta empty_corr 0.5) = Inr 0
   \<and> report_avg_degree (G empty_corr) = [Line ''Error: Graph has no nodes.'' []]"
proof -
  have d: "distinct (columns example_corr)"
    by (simp add: example_corr_def)
  have c: "columns example_corr \<noteq> []"
    by (simp add: example_corr_def)
  note t = mean_degree [of example_corr "0.5"]
  from t d have n: "number_of_nodes (G_theta example_corr 0.5) = 3"
    by (simp add: example_corr_def)
  have e: "number_of_edges (G_theta example_corr 0.5) = 2"
    by code_simp
  with t have k: "card (edge_set (G_theta example_corr 0.5)) = 2"
    by simp
  from t c n k have a: "avg_k (G_theta example_corr 0.5) = Inr (4 / 3)"
    by simp
  have "number_of_edges (G example_corr) = 2" "number_of_nodes (G example_corr) = 3"
    by code_simp+
  with t c have b: "avg_degree (G example_corr) = Inr (4 / 3)"
    by simp
  note u = mean_degree [of empty_corr "0.5"]
  from u have z: "avg_k (G_theta empty_corr 0.5) = Inr 0"
    by (simp add: empty_corr_columns)
  from u have r: "report_avg_degree (G empty_corr) = [Line ''Error: Graph has no nodes.'' []]"
    by (simp add: empty_corr_columns)
  from d n k a b z r show ?thesis by simp
qed

text \<open>
  C3 as stated (a graph without nodes reports 0) fails for network\_construction.py: on a
  correlation matrix without columns the division raises and the report is the error line.
\<close>

theorem mean_degree_no_nodes_counterexample:
  "number_of_nodes (G empty_corr) = 0
   \<and> avg_degree (G empty_corr) = Inl ZeroDivisionError
   \<and> avg_degree (G empty_corr) \<noteq> Inr 0
   \<and> report_avg_degree (G empty_corr) = [Line ''Error: Graph has no nodes.'' []]"
  by (simp add: G_no_nodes avg_degree_value report_avg_degree_value empty_corr_columns)

section \<open>The random-graph comparison needs two nodes\<close>

text \<open>
  C10. \<open>p = M / max_edges\<close> with \<open>max_edges = N (N - 1) / 2\<close> is computed without a guard:
  it is a number exactly when the loaded graph has at least two nodes, and with \<open>N \<le> 1\<close>
  the division by zero raises, so that the step ends with an exception whatever the
  clustering call returned.
\<close>

theorem random_graph_p_needs_two_nodes:
  "random_graph_p g =
     (if number_of_nodes g \<le> 1 then Inl ZeroDivisionError
      else Inr (real (number_of_edges g)
                / (real (number_of_nodes g) * (real (number_of_nodes g) - 1) / 2)))
   \<and> (number_of_nodes g \<le> 1 \<longrightarrow> snd (clustering_comparison average_clustering g) \<noteq> None)"
proof -
  have m: "max_edges g = Inr (real (number_of_nodes g) * (real (number_of_nodes g) - 1) / 2)"
    by (simp add: max_edges_def truediv_def Let_def)
  have z: "(real (number_of_nodes g) * (real (number_of_nodes g) - 1) / 2 = 0)
             = (number_of_nodes g \<le> 1)"
    by (cases "number_of_nodes g") auto
  have p: "random_graph_p g =
     (if number_of_nodes g \<le> 1 then Inl ZeroDivisionError
      else Inr (real (number_of_edges g)
                / (real (number_of_nodes g) * (real (number_of_nodes g) - 1) / 2)))"
    using z by (simp add: random_graph_p_def m truediv_def Let_def)
  have "number_of_nodes g \<le> 1 \<longrightarrow> snd (clustering_comparison average_clustering g) \<noteq> None"
    by (simp add: clustering_comparison_def p Let_def split: sum.splits)
  with p show ?thesis by simp
qed

theorem random_graph_p_needs_two_nodes_witness:
  "number_of_nodes single_node \<le> 1
   \<and> random_graph_p single_node = Inl ZeroDivisionError
   \<and> snd (clustering_comparison zero_clustering single_node) \<noteq> None
   \<and> random_graph_p (G_theta example_corr 0.5)
       = Inr (real (number_of_edges (G_theta example_corr 0.5)) / 3)"
proof -
  have n: "number_of_nodes single_node = 1"
    by (simp add: single_node_def add_node_def Graph_def number_of_nodes_def)
  have k: "number_of_nodes (G_theta example_corr 0.5) = 3"
    by (simp add: number_of_nodes_def G_theta_nodes example_corr_def)
  from random_graph_p_needs_two_nodes [of single_node zero_clustering] n
  have a: "random_graph_p single_node = Inl ZeroDivisionError
      \<and> snd (clustering_comparison zero_clustering single_node) \<noteq> None"
    by simp
  from random_graph_p_needs_two_nodes [of "G_theta example_corr 0.5" zero_clustering] k
  have b: "random_graph_p (G_theta example_corr 0.5)
       = Inr (real (number_of_edges (G_theta example_corr 0.5)) / 3)"
    by simp
  from n a b show ?thesis by simp
qed

section \<open>Failure of the inputs\<close>

text \<open>
  C7. When the price file is absent, network\_construction.py and parameter.py print the
  message that names the file and stop by \<^verbatim>\<open>exit()\<close>: nothing else is printed, no file is
  written, and neither the correlation matrix nor a graph enters the result.
\<close>

theorem missing_input_file_halts:
  "fs local_filename = None \<Longrightarrow>
     network_construction fs corr =
       \<lparr>stdout = [Line ''Error: File '{local_filename}' not found.'' [],
                  Line ''Please make sure the file is in the same directory as your script.'' []],
        files = [], status = Exited\<rparr>
   \<and> parameter fs corr average_clustering thresholds =
       \<lparr>stdout = [Line ''Error: File '{local_filename}' not found.'' []],
        files = [], status = Exited\<rparr>"
  by (simp add: network_construction_def parameter_def)

theorem missing_input_file_halts_witness:
  "Map.empty local_filename = (None :: string corr_matrix option)
   \<and> files (network_construction Map.empty (id :: string corr_matrix \<Rightarrow> string corr_matrix)) = []
   \<and> status (network_construction Map.empty (id :: string corr_matrix \<Rightarrow> string corr_matrix)) = Exited
   \<and> files (parameter Map.empty (id :: string corr_matrix \<Rightarrow> string corr_matrix) zero_clustering [0.5]) = []
   \<and> status (parameter Map.empty (id :: string corr_matrix \<Rightarrow> string corr_matrix) zero_clustering [0.5]) = Exited"
  using missing_input_file_halts [of "Map.empty :: string \<Rightarrow> string corr_matrix option"
      "id :: string corr_matrix \<Rightarrow> string corr_matrix" zero_clustering "[0.5]"]
  by simp

text \<open>
  C8. When the request for the symbol list fails, the fetch stage goes on with the empty
  symbol list; the download and save stages are then skipped, so that the run completes
  without an exception, writes no file and prints nothing but the error line. A later
  script that finds no price file stops by \<^verbatim>\<open>exit()\<close> without an exception and writes
  nothing either.
\<close>

theorem fetch_failure_continues_empty:
  "fetch_symbols RequestException symbol_column
     = Inr ([Line ''Error: Failed to download CSV file. {e}'' []], [])
   \<and> data_fetch RequestException symbol_column download clean =
       \<lparr>stdout = [Line ''Downloading stock list from {csv_url}...'' [],
                  Line ''Error: Failed to download CSV file. {e}'' []],
        files = [], status = Completed\<rparr>
   \<and> (fs local_filename = None \<longrightarrow>
        files (network_construction fs corr) = []
        \<and> status (network_construction fs corr) = Exited
        \<and> files (parameter fs corr average_clustering thresholds) = []
        \<and> status (parameter fs corr average_clustering thresholds) = Exited)"
  by (simp add: fetch_symbols_def data_fetch_def network_construction_def parameter_def)

theorem fetch_failure_continues_empty_witness:
  "Map.empty local_filename = (None :: string corr_matrix option)
   \<and> files (data_fetch RequestException no_symbols no_download id) = []
   \<and> status (data_fetch RequestException no_symbols no_download id) = Completed
   \<and> status (network_construction Map.empty (id :: string corr_matrix \<Rightarrow> string corr_matrix)) = Exited
   \<and> status (parameter Map.empty (id :: string corr_matrix \<Rightarrow> string corr_matrix) zero_clustering [0.5]) = Exited"
  using fetch_failure_continues_empty [of no_symbols no_download id
      "Map.empty :: string \<Rightarrow> string corr_matrix option"
      "id :: string corr_matrix \<Rightarrow> string corr_matrix" zero_clustering "[0.5]"]
  by simp

section \<open>Connected components and the largest-component fraction\<close>


lemma adjacency_has_edge: "(a, b) \<in> adjacency g \<longleftrightarrow> has_edge g a b"
  by (auto simp: adjacency_def has_edge_def image_iff)

lemma sym_adjacency: "sym (adjacency g)"
  by (rule symI) (simp add: adjacency_has_edge has_edge_sym)

lemma reach_sym: "(a, b) \<in> (adjacency g)\<^sup>* \<Longrightarrow> (b, a) \<in> (adjacency g)\<^sup>*"
  using sym_rtrancl [OF sym_adjacency, of g] by (auto dest: symD)

lemma set_node_connected_component:
  "set (node_connected_component g v) = component_of g v"
  by (auto simp: node_connected_component_def component_of_def rtrancl_eq_or_trancl)

lemma component_of_eq:
  assumes "u \<in> component_of g v"
  shows "component_of g u = component_of g v"
proof -
  from assms have vu: "(v, u) \<in> (adjacency g)\<^sup>*"
    by (simp add: component_of_def)
  then have uv: "(u, v) \<in> (adjacency g)\<^sup>*"
    by (rule reach_sym)
  have "(u, w) \<in> (adjacency g)\<^sup>* \<longleftrightarrow> (v, w) \<in> (adjacency g)\<^sup>*" for w
    using vu uv by (blast intro: rtrancl_trans)
  then show ?thesis
    by (simp add: component_of_def)
qed

lemma components_loop_sets:
  "set ` set (components_loop g seen vs) = component_of g ` (set vs - seen)"
proof (induction vs arbitrary: seen)
  case Nil
  then show ?case by simp
next
  case (Cons v vs)
  show ?case
  proof (cases "v \<in> seen")
    case True
    then have "set (v # vs) - seen = set vs - seen" by auto
    with True Cons.IH [of seen] show ?thesis by simp
  next
    case False
    have absorb: "component_of g ` (set vs - seen)
        \<subseteq> insert (component_of g v) (component_of g ` (set vs - (seen \<union> component_of g v)))"
    proof
      fix c assume "c \<in> component_of g ` (set vs - seen)"
      then obtain u where u: "u \<in> set vs" "u \<notin> seen" "c = component_of g u" by auto
      show "c \<in> insert (component_of g v) (component_of g ` (set vs - (seen \<union> component_of g v)))"
      proof (cases "u \<in> component_of g v")
        case True
        with u show ?thesis by (simp add: component_of_eq)
      next
        case False
        with u show ?thesis by auto
      qed
    qed
    have "set ` set (components_loop g seen (v # vs))
        = insert (component_of g v) (component_of g ` (set vs - (seen \<union> component_of g v)))"
      using False Cons.IH [of "seen \<union> component_of g v"]
      by (simp add: Let_def set_node_connected_component)
    also have "\<dots> = insert (component_of g v) (component_of g ` (set vs - seen))"
      using absorb by auto
    also have "\<dots> = component_of g ` (set (v # vs) - seen)"
      using False by auto
    finally show ?thesis .
  qed
qed

lemma connected_components_sets:
  "set ` set (connected_components g) = components_of g"
  by (simp add: connected_components_def components_loop_sets components_of_def)

lemma components_loop_distinct:
  "distinct (nodes g) \<Longrightarrow> \<forall>c \<in> set (components_loop g seen vs). distinct c"
  by (induction vs arbitrary: seen) (auto simp: Let_def node_connected_component_def)

lemma connected_components_distinct:
  "distinct (nodes g) \<Longrightarrow> c \<in> set (connected_components g) \<Longrightarrow> distinct c"
  using components_loop_distinct [of g "{}" "nodes g"] by (simp add: connected_components_def)

lemma connected_components_Nil: "(connected_components g = []) = (nodes g = [])"
proof -
  have "(connected_components g = []) = (set ` set (connected_components g) = {})"
    by simp
  also have "\<dots> = (nodes g = [])"
    unfolding connected_components_sets by (simp add: components_of_def)
  finally show ?thesis .
qed

lemma Max_insert_max:
  "finite S \<Longrightarrow> Max (insert a (insert b S)) = Max (insert (max a b) S)" for a b :: nat
  by (cases "S = {}") (simp_all add: max.assoc)

lemma length_max_key_len:
  "length (max_key_len c cs) = Max (length ` set (c # cs))"
  unfolding max_key_len_def
proof (induction cs arbitrary: c)
  case Nil
  then show ?case by simp
next
  case (Cons x xs)
  have "length (if length c < length x then x else c) = max (length c) (length x)"
    by (simp add: max_def)
  with Cons.IH [of "if length c < length x then x else c"]
  have "length (foldl (\<lambda>best x. if length best < length x then x else best) c (x # xs))
      = Max (insert (max (length c) (length x)) (length ` set xs))"
    by simp
  also have "\<dots> = Max (insert (length c) (insert (length x) (length ` set xs)))"
    by (rule Max_insert_max [symmetric]) simp
  finally show ?case by simp
qed

lemma card_components_as_lengths:
  assumes "distinct (nodes g)"
  shows "length ` set (connected_components g) = card ` components_of g"
proof -
  have "length c = card (set c)" if "c \<in> set (connected_components g)" for c
    using connected_components_distinct [OF assms that] by (simp add: distinct_card)
  then have "length ` set (connected_components g) = (card \<circ> set) ` set (connected_components g)"
    by (intro image_cong) simp_all
  also have "\<dots> = card ` (set ` set (connected_components g))"
    by (simp only: image_comp)
  also have "\<dots> = card ` components_of g"
    by (simp only: connected_components_sets)
  finally show ?thesis .
qed

lemma S_of_value:
  assumes "distinct (nodes g)"
  shows "S_of g N = (if nodes g = [] then Inr 0
                     else truediv (real (largest_component_size g)) (real N))"
proof (cases "connected_components g")
  case Nil
  then show ?thesis
    using connected_components_Nil [of g] by (simp add: S_of_def)
next
  case (Cons c cs)
  then have ne: "nodes g \<noteq> []"
    using connected_components_Nil [of g] by simp
  have "length (max_key_len c cs) = Max (length ` set (connected_components g))"
    by (simp add: length_max_key_len Cons)
  also have "\<dots> = largest_component_size g"
    by (simp add: card_components_as_lengths [OF assms] largest_component_size_def)
  finally show ?thesis
    using ne by (simp add: S_of_def Cons)
qed

lemma distinct_add_nodes_from:
  "distinct (nodes g) \<Longrightarrow> distinct (nodes (add_nodes_from vs g))"
  unfolding add_nodes_from_def
  by (induction vs arbitrary: g) (simp_all add: distinct_add_node)

lemma G_theta_nodes_distinct: "distinct (nodes (G_theta m \<theta>))"
  by (simp add: G_theta_nodes_indep distinct_add_nodes_from Graph_def)

lemma G_theta_nodes_Nil: "(nodes (G_theta m \<theta>) = []) = (columns m = [])"
  using G_theta_nodes_set [of m \<theta>] by auto

lemma S_of_G_theta:
  "S_of (G_theta m \<theta>) (length (columns m)) = Inr (lcc_fraction m \<theta>)"
  by (simp add: S_of_value [OF G_theta_nodes_distinct] G_theta_nodes_Nil lcc_fraction_def
        truediv_def)

lemma adjacency_mono:
  assumes "\<theta>1 \<le> \<theta>2"
  shows "adjacency (G_theta m \<theta>2) \<subseteq> adjacency (G_theta m \<theta>1)"
proof
  fix e assume e: "e \<in> adjacency (G_theta m \<theta>2)"
  obtain a b where ab: "e = (a, b)" by (cases e)
  with e have "{a, b} \<in> edge_set (G_theta m \<theta>2)"
    by (simp add: adjacency_has_edge has_edge_edge_set)
  with G_theta_edge_set_mono [OF assms, of m] have "{a, b} \<in> edge_set (G_theta m \<theta>1)"
    by blast
  with ab show "e \<in> adjacency (G_theta m \<theta>1)"
    by (simp add: adjacency_has_edge has_edge_edge_set)
qed

lemma component_of_mono:
  assumes "\<theta>1 \<le> \<theta>2"
  shows "component_of (G_theta m \<theta>2) v \<subseteq> component_of (G_theta m \<theta>1) v"
  using rtrancl_mono [OF adjacency_mono [OF assms, of m]]
  by (auto simp: component_of_def G_theta_nodes_indep)

lemma finite_component_of: "finite (component_of g v)"
  by (simp add: component_of_def)

lemma largest_component_size_mono:
  assumes "\<theta>1 \<le> \<theta>2"
  shows "largest_component_size (G_theta m \<theta>2) \<le> largest_component_size (G_theta m \<theta>1)"
proof (cases "columns m = []")
  case True
  then have "nodes (G_theta m \<theta>2) = []" "nodes (G_theta m \<theta>1) = []"
    by (simp_all add: G_theta_nodes_Nil)
  then show ?thesis
    by (simp add: largest_component_size_def components_of_def)
next
  case False
  then have ne: "set (nodes (G_theta m \<theta>2)) \<noteq> {}" "set (nodes (G_theta m \<theta>1)) \<noteq> {}"
    by (simp_all add: G_theta_nodes_Nil)
  have same: "set (nodes (G_theta m \<theta>2)) = set (nodes (G_theta m \<theta>1))"
    by (simp add: G_theta_nodes_set)
  have "card (component_of (G_theta m \<theta>2) v)
      \<le> Max (card ` components_of (G_theta m \<theta>1))"
    if v: "v \<in> set (nodes (G_theta m \<theta>2))" for v
  proof -
    have "card (component_of (G_theta m \<theta>2) v) \<le> card (component_of (G_theta m \<theta>1) v)"
      by (rule card_mono [OF finite_component_of component_of_mono [OF assms]])
    also have "\<dots> \<le> Max (card ` components_of (G_theta m \<theta>1))"
      using v same by (intro Max_ge) (auto simp: components_of_def)
    finally show ?thesis .
  qed
  then show ?thesis
    using ne by (simp add: largest_component_size_def components_of_def)
qed

lemma lcc_fraction_mono:
  "\<theta>1 \<le> \<theta>2 \<Longrightarrow> lcc_fraction m \<theta>2 \<le> lcc_fraction m \<theta>1"
  using largest_component_size_mono [of \<theta>1 \<theta>2 m]
  by (simp add: lcc_fraction_def divide_right_mono)

section \<open>The sweep\<close>

lemma sweep_step_value:
  "sweep_step cl m \<theta> =
     (case cl (G_theta m \<theta>) of
        Inl e \<Rightarrow> Inl e
      | Inr C \<Rightarrow> Inr (if number_of_nodes (G_theta m \<theta>) = 0 then 0
                       else 2 * real (number_of_edges (G_theta m \<theta>))
                            / real (number_of_nodes (G_theta m \<theta>)),
                      C, lcc_fraction m \<theta>))"
  by (simp add: sweep_step_def Let_def avg_k_value S_of_G_theta split: sum.splits)

lemma sweep_sizes:
  "sweep cl m thetas r = Inr r' \<Longrightarrow>
   largest_component_sizes r' = largest_component_sizes r @ map (lcc_fraction m) thetas"
proof (induction thetas arbitrary: r)
  case Nil
  then show ?case by simp
next
  case (Cons \<theta> thetas)
  from Cons.prems obtain C where C: "cl (G_theta m \<theta>) = Inr C"
    by (auto simp: sweep_step_value split: sum.splits)
  with Cons.prems Cons.IH show ?case
    by (simp add: sweep_step_value)
qed

lemma sweep_returns:
  "\<forall>\<theta> \<in> set thetas. \<exists>C. cl (G_theta m \<theta>) = Inr C \<Longrightarrow> \<exists>r'. sweep cl m thetas r = Inr r'"
proof (induction thetas arbitrary: r)
  case Nil
  then show ?case by simp
next
  case (Cons \<theta> thetas)
  from Cons.prems obtain C where C: "cl (G_theta m \<theta>) = Inr C"
    by auto
  from Cons.prems have "\<forall>\<theta> \<in> set thetas. \<exists>C. cl (G_theta m \<theta>) = Inr C"
    by simp
  from Cons.IH [OF this] C show ?case
    by (simp add: sweep_step_value)
qed

lemma non_increasing_map:
  fixes f :: "real \<Rightarrow> real"
  assumes "sorted xs" and "\<And>a b. a \<le> b \<Longrightarrow> f b \<le> f a"
  shows "sorted_wrt (\<lambda>s s'. s' \<le> s) (map f xs)"
  using assms by (induction xs) auto

text \<open>
  C4. Over an ascending sequence of thresholds, the largest-component fractions that the
  sweep records are non-increasing: one entry per threshold, each at most every earlier one.
\<close>

theorem S_non_increasing:
  assumes "sorted thetas" and "sweep average_clustering m thetas no_results = Inr r"
  shows "length (largest_component_sizes r) = length thetas
       \<and> sorted_wrt (\<lambda>S S'. S' \<le> S) (largest_component_sizes r)
       \<and> (\<forall>i j. i \<le> j \<and> j < length thetas
            \<longrightarrow> largest_component_sizes r ! j \<le> largest_component_sizes r ! i)"
proof -
  have sizes: "largest_component_sizes r = map (lcc_fraction m) thetas"
    using sweep_sizes [OF assms(2)] by (simp add: no_results_def)
  have s: "sorted_wrt (\<lambda>S S'. S' \<le> S) (largest_component_sizes r)"
    unfolding sizes by (rule non_increasing_map [OF assms(1)]) (rule lcc_fraction_mono)
  have "largest_component_sizes r ! j \<le> largest_component_sizes r ! i"
    if "i \<le> j \<and> j < length thetas" for i j
  proof (cases "i = j")
    case True
    then show ?thesis by simp
  next
    case False
    with that have "i < j" "j < length (largest_component_sizes r)"
      by (simp_all add: sizes)
    then show ?thesis
      using s by (simp add: sorted_wrt_iff_nth_less)
  qed
  with s sizes show ?thesis by simp
qed

theorem S_non_increasing_witness:
  "sorted [0.2, 0.5, 0.58 :: real]
   \<and> sweep zero_clustering example_corr [0.2, 0.5, 0.58] no_results
       = Inr \<lparr>avg_degrees = [2, 4 / 3, 2 / 3], avg_clusterings = [0, 0, 0],
              largest_component_sizes = [1, 1, 2 / 3]\<rparr>
   \<and> sorted_wrt (\<lambda>S S'. S' \<le> S) [1, 1, 2 / 3 :: real]"
proof -
  have a: "sorted [0.2, 0.5, 0.58 :: real]"
    by simp
  have e: "sweep zero_clustering example_corr [0.2, 0.5, 0.58] no_results
       = Inr \<lparr>avg_degrees = [2, 4 / 3, 2 / 3], avg_clusterings = [0, 0, 0],
              largest_component_sizes = [1, 1, 2 / 3]\<rparr>"
    by code_simp
  from S_non_increasing [OF a e] have "sorted_wrt (\<lambda>S S'. S' \<le> S) [1, 1, 2 / 3 :: real]"
    by simp
  with a e show ?thesis by simp
qed

text \<open>
  C5. For the graph of every threshold, the \<open>S\<close> that the sweep computes is the size of the
  largest connected component (the largest class of mutual reachability among the nodes)
  divided by the number \<open>N\<close> of symbols, and 0 when the graph has no node; the division by
  \<open>N\<close> never raises. The lists that \<^verbatim>\<open>nx.connected_components\<close> yields are exactly these
  classes. Every entry of \<open>largest_component_sizes\<close> is this value, and the sweep returns
  whenever the clustering call does.
\<close>

theorem S_is_largest_component_fraction:
  "S_of (G_theta m \<theta>) (length (columns m)) = Inr (lcc_fraction m \<theta>)
   \<and> lcc_fraction m \<theta> =
       (if columns m = [] then 0
        else real (Max (card ` components_of (G_theta m \<theta>))) / real (length (columns m)))
   \<and> set ` set (connected_components (G_theta m \<theta>)) = components_of (G_theta m \<theta>)
   \<and> (connected_components (G_theta m \<theta>) = []) = (columns m = [])
   \<and> (sweep average_clustering m thetas no_results = Inr r
        \<longrightarrow> largest_component_sizes r = map (lcc_fraction m) thetas)
   \<and> ((\<forall>\<theta> \<in> set thetas. \<exists>C. average_clustering (G_theta m \<theta>) = Inr C)
        \<longrightarrow> (\<exists>r. sweep average_clustering m thetas no_results = Inr r))"
proof (intro conjI impI)
  show "S_of (G_theta m \<theta>) (length (columns m)) = Inr (lcc_fraction m \<theta>)"
    by (rule S_of_G_theta)
  show "lcc_fraction m \<theta> =
       (if columns m = [] then 0
        else real (Max (card ` components_of (G_theta m \<theta>))) / real (length (columns m)))"
    by (simp add: lcc_fraction_def largest_component_size_def)
  show "set ` set (connected_components (G_theta m \<theta>)) = components_of (G_theta m \<theta>)"
    by (rule connected_components_sets)
  show "(connected_components (G_theta m \<theta>) = []) = (columns m = [])"
    by (simp add: connected_components_Nil G_theta_nodes_Nil)
next
  assume "sweep average_clustering m thetas no_results = Inr r"
  from sweep_sizes [OF this] show "largest_component_sizes r = map (lcc_fraction m) thetas"
    by (simp add: no_results_def)
next
  assume "\<forall>\<theta> \<in> set thetas. \<exists>C. average_clustering (G_theta m \<theta>) = Inr C"
  then show "\<exists>r. sweep average_clustering m thetas no_results = Inr r"
    by (rule sweep_returns)
qed

theorem S_is_largest_component_fraction_witness:
  "zero_clustering (G_theta example_corr 0.58) = Inr 0
   \<and> (\<exists>r. sweep zero_clustering example_corr [0.2, 0.5, 0.58] no_results = Inr r
          \<and> largest_component_sizes r = map (lcc_fraction example_corr) [0.2, 0.5, 0.58])
   \<and> S_of (G_theta example_corr 0.58) 3 = Inr (2 / 3)
   \<and> lcc_fraction example_corr 0.58 = 2 / 3
   \<and> S_of (G_theta empty_corr 0.58) 0 = Inr 0"
proof -
  note t = S_is_largest_component_fraction
    [of example_corr "0.58" zero_clustering "[0.2, 0.5, 0.58]"]
  have c: "\<forall>\<theta> \<in> set [0.2, 0.5, 0.58 :: real]. \<exists>C. zero_clustering (G_theta example_corr \<theta>) = Inr C"
    by (simp add: zero_clustering_def)
  have n: "length (columns example_corr) = 3"
    by (simp add: example_corr_def)
  have v: "S_of (G_theta example_corr 0.58) 3 = Inr (2 / 3)"
    by code_simp
  from t n v have l: "lcc_fraction example_corr 0.58 = 2 / 3"
    by simp
  from t c obtain r where r: "sweep zero_clustering example_corr [0.2, 0.5, 0.58] no_results = Inr r"
    by blast
  with t have "largest_component_sizes r = map (lcc_fraction example_corr) [0.2, 0.5, 0.58]"
    by blast
  with r have x: "\<exists>r. sweep zero_clustering example_corr [0.2, 0.5, 0.58] no_results = Inr r
          \<and> largest_component_sizes r = map (lcc_fraction example_corr) [0.2, 0.5, 0.58]"
    by blast
  have z: "S_of (G_theta empty_corr 0.58) 0 = Inr 0"
    using S_is_largest_component_fraction [of empty_corr "0.58" zero_clustering "[]"]
    by (simp add: empty_corr_columns lcc_fraction_def)
  have c': "zero_clustering (G_theta example_corr 0.58) = Inr 0"
    by (simp add: zero_clustering_def)
  from c' x v l z show ?thesis
    by (intro conjI)
qed

section \<open>The correlation matrix\<close>






















lemma dropna_Nil: "dropna [] = []"
  by (simp add: dropna_def List.map_filter_simps)

lemma dropna_Cons:
  "dropna (cells # rows) = (case numbers cells of None \<Rightarrow> dropna rows | Some xs \<Rightarrow> xs # dropna rows)"
  unfolding dropna_def by (simp add: List.map_filter_simps)




lemma example_returns: "log_returns_df example_prices = [[ln 2, 0], [0, ln 2]]"
  by (simp add: log_returns_df_def example_prices_def log_returns_def dropna_Cons dropna_Nil
        log_ratio_def)

lemma example_column_varies:
  "\<not> (\<forall>x \<in> set (column_of 0 (log_returns_df example_prices)).
        x = mean_of (column_of 0 (log_returns_df example_prices)))"
  by (simp add: example_returns column_of_def mean_of_def)




end
